theory Spec2Isabelle
  imports Main
begin

section \<open>Values, exceptions and the filesystem\<close>

text \<open>
  A shallow embedding of \<^verbatim>\<open>src/llmtune/cli/toolkit.py\<close>: the orchestrator
  \<^verbatim>\<open>run_one_experiment\<close> and the command \<^verbatim>\<open>run\<close>.
  Python exceptions are values of \<open>error\<close>; a computation takes the world (the
  filesystem and the trace of calls made so far) and returns its result or the exception
  raised, together with the world it leaves behind.
\<close>

type_synonym path = string

text \<open>What \<^verbatim>\<open>yaml.safe_load\<close> returns (floats and timestamps left out).\<close>

datatype yaml =
    YNull
  | YBool bool
  | YInt int
  | YStr string
  | YList "yaml list"
  | YDict "(string \<times> yaml) list"

datatype error =
    ValidationError string
  | AttributeError
  | IndexError
  | FileNotFoundError
  | IsADirectoryError
  | NotADirectoryError
  | OtherError string

text \<open>
  The filesystem maps a path to a regular file with its text or to a directory with the
  names \<^verbatim>\<open>iterdir\<close> yields. Nothing relates a directory's listing to the paths
  below it: the theorems hold for every such filesystem.
\<close>

datatype entry = File string | Dir "path list"

type_synonym fs = "path \<Rightarrow> entry option"

text \<open>\<^verbatim>\<open>dir_helper.save_paths\<close>: the five artifact locations the code reads.\<close>

record save_paths =
  dataset :: path
  weights :: path
  results :: path
  results_file :: path
  config_file :: path

text \<open>
  The variable \<^verbatim>\<open>config\<close> of the loop in \<^verbatim>\<open>run\<close> holds the raw mapping
  until \<^verbatim>\<open>Config(**config)\<close> succeeds, and the validated object afterwards.
\<close>

datatype 'cfg config_obj = RawDict yaml | Validated 'cfg

text \<open>
  One entry of the trace per call the code makes: \<^verbatim>\<open>print\<close>, the file reads, the
  constructors and methods of the collaborators, and the \<^verbatim>\<open>RichUI\<close> calls.
\<close>

datatype ('cfg, 'ex) event =
    Print string
  | Open_read path
  | Yaml_safe_load string
  | New_Config yaml
  | New_DirectoryHelper path "'cfg config_obj"
  | UI_before_dataset_creation
  | UI_during_dataset_creation
  | New_DatasetGenerator 'cfg
  | Call_get_dataset
  | Call_save_dataset path
  | UI_dataset_found path
  | Call_load_dataset_from_pickle path
  | UI_dataset_display_one_example 'ex 'ex
  | UI_after_dataset_creation path "'ex list" "'ex list"
  | UI_before_finetune
  | New_LoRAFinetune 'cfg save_paths
  | UI_during_finetune
  | Call_finetune "'ex list"
  | Call_save_model
  | UI_after_finetune
  | UI_finetune_found path
  | UI_before_inference
  | New_LoRAInference "'ex list" "string list" 'cfg save_paths
  | Call_infer_all
  | UI_after_inference path
  | UI_results_found path

record ('cfg, 'ex) world =
  files :: fs
  trace :: "('cfg, 'ex) event list"

section \<open>The collaborators\<close>

text \<open>
  The modules \<^verbatim>\<open>toolkit.py\<close> imports are not part of the sources, so each of their
  entry points is a parameter: a function on the filesystem that returns a result or an
  exception and the filesystem it leaves. \<open>'gen\<close>, \<open>'ft\<close> and \<open>'inf\<close> are the
  states of the generator, finetuner and inference objects; \<^verbatim>\<open>dir_helper\<close> is
  identified with its \<^verbatim>\<open>save_paths\<close>. \<^verbatim>\<open>yaml.safe_load\<close> is a parameter on the
  text of the file; \<^verbatim>\<open>Config\<close> takes the loaded value and returns the validated
  object or the exception of the call \<^verbatim>\<open>Config(**config)\<close>.
\<close>

record ('cfg, 'ex, 'gen, 'ft, 'inf) collaborators =
  yaml_safe_load :: "string \<Rightarrow> error + yaml"
  generate_permutations :: "yaml \<Rightarrow> error + yaml list"
  Config :: "yaml \<Rightarrow> error + 'cfg"
  DirectoryHelper :: "path \<Rightarrow> 'cfg config_obj \<Rightarrow> fs \<Rightarrow> (error + save_paths) \<times> fs"
  DatasetGenerator :: "'cfg \<Rightarrow> fs \<Rightarrow> (error + 'gen) \<times> fs"
  test_columns :: "'gen \<Rightarrow> string list"
  get_dataset :: "'gen \<Rightarrow> fs \<Rightarrow> (error + ('ex list \<times> 'ex list \<times> 'gen)) \<times> fs"
  save_dataset :: "'gen \<Rightarrow> path \<Rightarrow> fs \<Rightarrow> (error + unit) \<times> fs"
  load_dataset_from_pickle :: "'gen \<Rightarrow> path \<Rightarrow> fs \<Rightarrow> (error + ('ex list \<times> 'ex list)) \<times> fs"
  LoRAFinetune :: "'cfg \<Rightarrow> save_paths \<Rightarrow> fs \<Rightarrow> (error + 'ft) \<times> fs"
  finetune :: "'ft \<Rightarrow> 'ex list \<Rightarrow> fs \<Rightarrow> (error + 'ft) \<times> fs"
  save_model :: "'ft \<Rightarrow> fs \<Rightarrow> (error + unit) \<times> fs"
  LoRAInference :: "'ex list \<Rightarrow> string list \<Rightarrow> 'cfg \<Rightarrow> save_paths \<Rightarrow> fs \<Rightarrow> (error + 'inf) \<times> fs"
  infer_all :: "'inf \<Rightarrow> fs \<Rightarrow> (error + unit) \<times> fs"

section \<open>Sequencing with exceptions\<close>

definition ret :: "'a \<Rightarrow> 'w \<Rightarrow> (error + 'a) \<times> 'w" where
  "ret x w = (Inr x, w)"

definition raise :: "error \<Rightarrow> 'w \<Rightarrow> (error + 'a) \<times> 'w" where
  "raise e w = (Inl e, w)"

text \<open>Statement sequencing: an exception of the first part skips the rest.\<close>

definition bnd :: "('w \<Rightarrow> (error + 'a) \<times> 'w) \<Rightarrow> ('a \<Rightarrow> 'w \<Rightarrow> (error + 'b) \<times> 'w)
    \<Rightarrow> 'w \<Rightarrow> (error + 'b) \<times> 'w" where
  "bnd m f w = (case m w of (Inl e, w') \<Rightarrow> (Inl e, w') | (Inr x, w') \<Rightarrow> f x w')"

text \<open>A \<^verbatim>\<open>RichUI\<close> call or \<^verbatim>\<open>print\<close>: recorded, with no effect on control flow.\<close>

definition emit :: "('cfg, 'ex) event \<Rightarrow> ('cfg, 'ex) world \<Rightarrow> (error + unit) \<times> ('cfg, 'ex) world" where
  "emit ev w = (Inr (), w\<lparr>trace := trace w @ [ev]\<rparr>)"

text \<open>A collaborator call: recorded when made, then run on the filesystem.\<close>

definition call :: "('cfg, 'ex) event \<Rightarrow> (fs \<Rightarrow> (error + 'a) \<times> fs)
    \<Rightarrow> ('cfg, 'ex) world \<Rightarrow> (error + 'a) \<times> ('cfg, 'ex) world" where
  "call ev f w = (case f (files w) of (r, fs') \<Rightarrow> (r, w\<lparr>files := fs', trace := trace w @ [ev]\<rparr>))"

text \<open>A call that does not touch the filesystem (\<^verbatim>\<open>yaml.safe_load\<close>, \<^verbatim>\<open>Config\<close>).\<close>

definition call_pure :: "('cfg, 'ex) event \<Rightarrow> error + 'a
    \<Rightarrow> ('cfg, 'ex) world \<Rightarrow> (error + 'a) \<times> ('cfg, 'ex) world" where
  "call_pure ev r w = (r, w\<lparr>trace := trace w @ [ev]\<rparr>)"

text \<open>An expression that raises or returns without touching the world.\<close>

definition lift :: "error + 'a \<Rightarrow> 'w \<Rightarrow> (error + 'a) \<times> 'w" where
  "lift r w = (r, w)"

subsection \<open>pathlib and the built-ins the code uses\<close>

text \<open>\<^verbatim>\<open>Path.exists()\<close>.\<close>

definition path_exists :: "path \<Rightarrow> ('cfg, 'ex) world \<Rightarrow> (error + bool) \<times> ('cfg, 'ex) world" where
  "path_exists p w = (Inr (files w p \<noteq> None), w)"

text \<open>\<^verbatim>\<open>Path.iterdir()\<close>, consumed by \<^verbatim>\<open>any\<close>: it raises on a path that is
  missing or not a directory.\<close>

definition iterdir :: "path \<Rightarrow> ('cfg, 'ex) world \<Rightarrow> (error + path list) \<times> ('cfg, 'ex) world" where
  "iterdir p w =
     (case files w p of
        None \<Rightarrow> (Inl FileNotFoundError, w)
      | Some (File _) \<Rightarrow> (Inl NotADirectoryError, w)
      | Some (Dir names) \<Rightarrow> (Inr names, w))"

text \<open>\<^verbatim>\<open>with p.open("r") as file\<close>: the text of the file, read by the statement
  that follows.\<close>

definition open_read :: "path \<Rightarrow> ('cfg, 'ex) world \<Rightarrow> (error + string) \<times> ('cfg, 'ex) world" where
  "open_read p w =
     (case files w p of
        None \<Rightarrow> (Inl FileNotFoundError, w\<lparr>trace := trace w @ [Open_read p]\<rparr>)
      | Some (Dir _) \<Rightarrow> (Inl IsADirectoryError, w\<lparr>trace := trace w @ [Open_read p]\<rparr>)
      | Some (File s) \<Rightarrow> (Inr s, w\<lparr>trace := trace w @ [Open_read p]\<rparr>))"

text \<open>\<^verbatim>\<open>xs[0]\<close>: IndexError on an empty sequence.\<close>

definition index0 :: "'a list \<Rightarrow> 'w \<Rightarrow> (error + 'a) \<times> 'w" where
  "index0 xs w = (case xs of [] \<Rightarrow> (Inl IndexError, w) | x # _ \<Rightarrow> (Inr x, w))"

text \<open>\<^verbatim>\<open>d.get(key, default)\<close>: only a mapping has the method.\<close>

definition dict_get :: "yaml \<Rightarrow> string \<Rightarrow> yaml \<Rightarrow> error + yaml" where
  "dict_get d k dflt =
     (case d of
        YDict kvs \<Rightarrow> (case map_of kvs k of None \<Rightarrow> Inr dflt | Some v \<Rightarrow> Inr v)
      | _ \<Rightarrow> Inl AttributeError)"

text \<open>Python's truth value of a loaded YAML value, as the conditional expression tests it.\<close>

fun truthy :: "yaml \<Rightarrow> bool" where
  "truthy YNull = False"
| "truthy (YBool b) = b"
| "truthy (YInt i) = (i \<noteq> 0)"
| "truthy (YStr s) = (s \<noteq> [])"
| "truthy (YList ys) = (ys \<noteq> [])"
| "truthy (YDict kvs) = (kvs \<noteq> [])"

section \<open>run_one_experiment\<close>

text \<open>
  Lines 41 to 58, "Loading Data". The generator is constructed before the cache test;
  \<^verbatim>\<open>train[0]\<close> and \<^verbatim>\<open>test[0]\<close> are evaluated after either branch.
\<close>

definition loading_data :: "('cfg, 'ex, 'gen, 'ft, 'inf) collaborators \<Rightarrow> 'cfg \<Rightarrow> save_paths
    \<Rightarrow> ('cfg, 'ex) world \<Rightarrow> (error + ('ex list \<times> 'ex list \<times> string list)) \<times> ('cfg, 'ex) world" where
  "loading_data E config dir_helper =
     bnd (emit UI_before_dataset_creation) (\<lambda>_.
     bnd (emit UI_during_dataset_creation) (\<lambda>_.
     bnd (call (New_DatasetGenerator config) (DatasetGenerator E config)) (\<lambda>dataset_generator.
     bnd (ret (test_columns E dataset_generator)) (\<lambda>test_cols.
     bnd (ret (dataset dir_helper)) (\<lambda>dataset_path.
     bnd (bnd (path_exists dataset_path) (\<lambda>found.
            if \<not> found then
              bnd (call Call_get_dataset (get_dataset E dataset_generator)) (\<lambda>(train, test, generator').
              bnd (call (Call_save_dataset dataset_path) (save_dataset E generator' dataset_path)) (\<lambda>_.
              ret (train, test)))
            else
              bnd (emit (UI_dataset_found dataset_path)) (\<lambda>_.
              call (Call_load_dataset_from_pickle dataset_path)
                (load_dataset_from_pickle E dataset_generator dataset_path))))
       (\<lambda>(train, test).
     bnd (index0 train) (\<lambda>train0.
     bnd (index0 test) (\<lambda>test0.
     bnd (emit (UI_dataset_display_one_example train0 test0)) (\<lambda>_.
     bnd (emit (UI_after_dataset_creation dataset_path train test)) (\<lambda>_.
     ret (train, test, test_cols)))))))))))"

text \<open>
  Lines 61 to 73, "Loading Model". \<^verbatim>\<open>or\<close> short-circuits: \<^verbatim>\<open>iterdir\<close> runs
  only on a path that exists.
\<close>

definition loading_model :: "('cfg, 'ex, 'gen, 'ft, 'inf) collaborators \<Rightarrow> 'cfg \<Rightarrow> save_paths
    \<Rightarrow> 'ex list \<Rightarrow> ('cfg, 'ex) world \<Rightarrow> (error + unit) \<times> ('cfg, 'ex) world" where
  "loading_model E config dir_helper train =
     bnd (emit UI_before_finetune) (\<lambda>_.
     bnd (ret (weights dir_helper)) (\<lambda>weights_path.
     bnd (bnd (path_exists weights_path) (\<lambda>found.
            if \<not> found then ret True
            else bnd (iterdir weights_path) (\<lambda>names. ret (names = [])))) (\<lambda>absent_or_empty.
     if absent_or_empty then
       bnd (call (New_LoRAFinetune config dir_helper) (LoRAFinetune E config dir_helper)) (\<lambda>finetuner.
       bnd (emit UI_during_finetune) (\<lambda>_.
       bnd (call (Call_finetune train) (finetune E finetuner train)) (\<lambda>finetuner'.
       bnd (call Call_save_model (save_model E finetuner')) (\<lambda>_.
       emit UI_after_finetune))))
     else
       emit (UI_finetune_found weights_path))))"

text \<open>Lines 76 to 84, "Inference".\<close>

definition inference :: "('cfg, 'ex, 'gen, 'ft, 'inf) collaborators \<Rightarrow> 'cfg \<Rightarrow> save_paths
    \<Rightarrow> 'ex list \<Rightarrow> string list \<Rightarrow> ('cfg, 'ex) world \<Rightarrow> (error + unit) \<times> ('cfg, 'ex) world" where
  "inference E config dir_helper test test_cols =
     bnd (emit UI_before_inference) (\<lambda>_.
     bnd (ret (results dir_helper)) (\<lambda>results_path.
     bnd (ret (results_file dir_helper)) (\<lambda>results_file_path.
     bnd (path_exists results_file_path) (\<lambda>found.
     if \<not> found then
       bnd (call (New_LoRAInference test test_cols config dir_helper)
              (LoRAInference E test test_cols config dir_helper)) (\<lambda>inference_runner.
       bnd (call Call_infer_all (infer_all E inference_runner)) (\<lambda>_.
       emit (UI_after_inference results_path)))
     else
       emit (UI_results_found results_path)))))"

text \<open>Lines 37 to 84: the directory helper, then the three stages in order.\<close>

definition run_one_experiment :: "('cfg, 'ex, 'gen, 'ft, 'inf) collaborators \<Rightarrow> 'cfg \<Rightarrow> path
    \<Rightarrow> ('cfg, 'ex) world \<Rightarrow> (error + unit) \<times> ('cfg, 'ex) world" where
  "run_one_experiment E config config_path =
     bnd (call (New_DirectoryHelper config_path (Validated config))
            (DirectoryHelper E config_path (Validated config))) (\<lambda>dir_helper.
     bnd (loading_data E config dir_helper) (\<lambda>(train, test, test_cols).
     bnd (loading_model E config dir_helper train) (\<lambda>_.
     inference E config dir_helper test test_cols)))"

section \<open>The run command\<close>

text \<open>
  Lines 103 to 105: \<^verbatim>\<open>config.get("ablation", {}).get("use_ablate", False)\<close> decides
  between the permutations and the one-element list.
\<close>

definition run_configs :: "('cfg, 'ex, 'gen, 'ft, 'inf) collaborators \<Rightarrow> yaml \<Rightarrow> error + yaml list" where
  "run_configs E config =
     (case dict_get config ''ablation'' (YDict []) of
        Inl e \<Rightarrow> Inl e
      | Inr ablation \<Rightarrow>
          (case dict_get ablation ''use_ablate'' (YBool False) of
             Inl e \<Rightarrow> Inl e
           | Inr use_ablate \<Rightarrow>
               if truthy use_ablate then generate_permutations E config else Inr [config]))"

text \<open>
  Lines 108 to 111: \<^verbatim>\<open>try: config = Config(**config)\<close>. The handler catches
  ValidationError only, prints it and leaves \<^verbatim>\<open>config\<close> as it was.
\<close>

definition validate_first :: "('cfg, 'ex, 'gen, 'ft, 'inf) collaborators \<Rightarrow> yaml
    \<Rightarrow> ('cfg, 'ex) world \<Rightarrow> (error + 'cfg config_obj) \<times> ('cfg, 'ex) world" where
  "validate_first E config w =
     (case call_pure (New_Config config) (Config E config) w of
        (Inr validated, w') \<Rightarrow> (Inr (Validated validated), w')
      | (Inl (ValidationError j), w') \<Rightarrow> bnd (emit (Print j)) (\<lambda>_. ret (RawDict config)) w'
      | (Inl e, w') \<Rightarrow> (Inl e, w'))"

text \<open>
  Lines 113 to 120: the directory helper is built from whatever \<^verbatim>\<open>config\<close> holds,
  the persisted config file is opened, loaded and validated with no handler around it,
  and the orchestrator runs on the result.
\<close>

definition resolve_reload_run :: "('cfg, 'ex, 'gen, 'ft, 'inf) collaborators \<Rightarrow> path
    \<Rightarrow> 'cfg config_obj \<Rightarrow> ('cfg, 'ex) world \<Rightarrow> (error + unit) \<times> ('cfg, 'ex) world" where
  "resolve_reload_run E config_path config1 =
     bnd (call (New_DirectoryHelper config_path config1)
            (DirectoryHelper E config_path config1)) (\<lambda>dir_helper.
     bnd (open_read (config_file dir_helper)) (\<lambda>text.
     bnd (call_pure (Yaml_safe_load text) (yaml_safe_load E text)) (\<lambda>config2.
     bnd (call_pure (New_Config config2) (Config E config2)) (\<lambda>config3.
     run_one_experiment E config3 config_path))))"

text \<open>Lines 106 to 120: the body of the loop, for one item of \<^verbatim>\<open>configs\<close>.\<close>

definition run_item :: "('cfg, 'ex, 'gen, 'ft, 'inf) collaborators \<Rightarrow> path \<Rightarrow> yaml
    \<Rightarrow> ('cfg, 'ex) world \<Rightarrow> (error + unit) \<times> ('cfg, 'ex) world" where
  "run_item E config_path config =
     bnd (validate_first E config) (resolve_reload_run E config_path)"

fun run_loop :: "('cfg, 'ex, 'gen, 'ft, 'inf) collaborators \<Rightarrow> path \<Rightarrow> yaml list
    \<Rightarrow> ('cfg, 'ex) world \<Rightarrow> (error + unit) \<times> ('cfg, 'ex) world" where
  "run_loop E config_path [] = ret ()"
| "run_loop E config_path (config # configs) =
     bnd (run_item E config_path config) (\<lambda>_. run_loop E config_path configs)"

text \<open>Lines 98 to 120.\<close>

definition run :: "('cfg, 'ex, 'gen, 'ft, 'inf) collaborators \<Rightarrow> path
    \<Rightarrow> ('cfg, 'ex) world \<Rightarrow> (error + unit) \<times> ('cfg, 'ex) world" where
  "run E config_path =
     bnd (open_read config_path) (\<lambda>text.
     bnd (call_pure (Yaml_safe_load text) (yaml_safe_load E text)) (\<lambda>config.
     bnd (lift (run_configs E config)) (\<lambda>configs.
     run_loop E config_path configs)))"

section \<open>Observing a run\<close>


text \<open>The calls made between the world \<open>w\<close> and the later world \<open>w'\<close>.\<close>

definition new_events :: "('cfg, 'ex) world \<Rightarrow> ('cfg, 'ex) world \<Rightarrow> ('cfg, 'ex) event list" where
  "new_events w w' = drop (length (trace w)) (trace w')"

text \<open>The calls that do the work of a stage, as opposed to loading what is there.\<close>

fun is_generation_call :: "('cfg, 'ex) event \<Rightarrow> bool" where
  "is_generation_call Call_get_dataset = True"
| "is_generation_call (Call_save_dataset _) = True"
| "is_generation_call _ = False"

fun is_finetune_call :: "('cfg, 'ex) event \<Rightarrow> bool" where
  "is_finetune_call (New_LoRAFinetune _ _) = True"
| "is_finetune_call (Call_finetune _) = True"
| "is_finetune_call Call_save_model = True"
| "is_finetune_call _ = False"

fun is_inference_call :: "('cfg, 'ex) event \<Rightarrow> bool" where
  "is_inference_call (New_LoRAInference _ _ _ _) = True"
| "is_inference_call Call_infer_all = True"
| "is_inference_call _ = False"

text \<open>A computation adds to the trace only events that satisfy \<open>ok\<close>.\<close>

definition only_appends :: "(('cfg, 'ex) event \<Rightarrow> bool)
    \<Rightarrow> (('cfg, 'ex) world \<Rightarrow> (error + 'a) \<times> ('cfg, 'ex) world) \<Rightarrow> bool" where
  "only_appends ok m = (\<forall>w. \<exists>evs. trace (snd (m w)) = trace w @ evs \<and> list_all ok evs)"

section \<open>What the collaborators are assumed to do\<close>

text \<open>
  \<open>grows s t\<close>: everything on disk in \<open>s\<close> is still there in \<open>t\<close>, every file with
  the same text and every directory with at least the same entries.
\<close>

definition grows :: "fs \<Rightarrow> fs \<Rightarrow> bool" where
  "grows s t =
     (\<forall>p. case s p of
             None \<Rightarrow> True
           | Some (File text) \<Rightarrow> t p = Some (File text)
           | Some (Dir names) \<Rightarrow> (\<exists>names'. t p = Some (Dir names') \<and> set names \<subseteq> set names'))"

text \<open>The work of each stage on a cache miss, on the filesystem alone.\<close>

definition generate_and_save :: "('cfg, 'ex, 'gen, 'ft, 'inf) collaborators \<Rightarrow> 'gen \<Rightarrow> path
    \<Rightarrow> fs \<Rightarrow> (error + ('ex list \<times> 'ex list)) \<times> fs" where
  "generate_and_save E g p =
     bnd (get_dataset E g) (\<lambda>(train, test, g').
     bnd (save_dataset E g' p) (\<lambda>_. ret (train, test)))"

definition fit_and_save :: "('cfg, 'ex, 'gen, 'ft, 'inf) collaborators \<Rightarrow> 'cfg \<Rightarrow> save_paths
    \<Rightarrow> 'ex list \<Rightarrow> fs \<Rightarrow> (error + unit) \<times> fs" where
  "fit_and_save E config P train =
     bnd (LoRAFinetune E config P) (\<lambda>ft.
     bnd (finetune E ft train) (\<lambda>ft'. save_model E ft'))"

definition infer :: "('cfg, 'ex, 'gen, 'ft, 'inf) collaborators \<Rightarrow> 'cfg \<Rightarrow> save_paths
    \<Rightarrow> 'ex list \<Rightarrow> string list \<Rightarrow> fs \<Rightarrow> (error + unit) \<times> fs" where
  "infer E config P test cols =
     bnd (LoRAInference E test cols config P) (\<lambda>runner. infer_all E runner)"

text \<open>
  The contracts of sections 1, 4.3 and 6 of the specification, for one source file and
  one configuration. No collaborator removes or rewrites what is on disk. Path resolution
  gives the same paths again and changes nothing once it has succeeded; so does
  constructing the generator; loading a dataset returns the same splits again and
  changes nothing. On a cache miss, generating and saving leaves a dataset file that loads
  back as the splits returned, fine-tuning leaves a non-empty weights directory, and
  inference leaves the results file.
\<close>

definition collaborator_contracts :: "('cfg, 'ex, 'gen, 'ft, 'inf) collaborators \<Rightarrow> path
    \<Rightarrow> 'cfg \<Rightarrow> bool" where
  "collaborator_contracts E config_path config =
     ((\<forall>s r s'. DirectoryHelper E config_path (Validated config) s = (r, s') \<longrightarrow> grows s s') \<and>
      (\<forall>s P s' t. DirectoryHelper E config_path (Validated config) s = (Inr P, s') \<longrightarrow> grows s' t
          \<longrightarrow> DirectoryHelper E config_path (Validated config) t = (Inr P, t)) \<and>
      (\<forall>s r s'. DatasetGenerator E config s = (r, s') \<longrightarrow> grows s s') \<and>
      (\<forall>s g s' t. DatasetGenerator E config s = (Inr g, s') \<longrightarrow> grows s' t
          \<longrightarrow> (\<exists>g2. DatasetGenerator E config t = (Inr g2, t))) \<and>
      (\<forall>g p s r s'. load_dataset_from_pickle E g p s = (r, s') \<longrightarrow> grows s s') \<and>
      (\<forall>g p s d s' g2 t. load_dataset_from_pickle E g p s = (Inr d, s') \<longrightarrow> grows s' t
          \<longrightarrow> load_dataset_from_pickle E g2 p t = (Inr d, t)) \<and>
      (\<forall>g p s r s'. s p = None \<longrightarrow> generate_and_save E g p s = (r, s') \<longrightarrow> grows s s') \<and>
      (\<forall>g p s d s' g2 t. s p = None \<longrightarrow> generate_and_save E g p s = (Inr d, s') \<longrightarrow>
          s' p \<noteq> None \<and> (grows s' t \<longrightarrow> load_dataset_from_pickle E g2 p t = (Inr d, t))) \<and>
      (\<forall>P train s r s'. s (weights P) = None \<or> s (weights P) = Some (Dir []) \<longrightarrow>
          fit_and_save E config P train s = (r, s') \<longrightarrow>
          grows s s' \<and> (r = Inr () \<longrightarrow> (\<exists>n ns. s' (weights P) = Some (Dir (n # ns))))) \<and>
      (\<forall>P test cols s r s'. s (results_file P) = None \<longrightarrow>
          infer E config P test cols s = (r, s') \<longrightarrow>
          grows s s' \<and> (r = Inr () \<longrightarrow> s' (results_file P) \<noteq> None)))"

section \<open>A concrete environment\<close>

text \<open>
  Collaborators small enough to run: a configuration is a model name, an example a
  number, the dataset \<open>([1, 2], [3])\<close>. They instantiate the theorems below.
\<close>

text \<open>The artifact locations of one configuration, under a directory named after it.\<close>

definition demo_paths_for :: "string \<Rightarrow> save_paths" where
  "demo_paths_for model =
     \<lparr>dataset = ''exp/'' @ model @ ''/dataset.pkl'',
      weights = ''exp/'' @ model @ ''/weights'',
      results = ''exp/'' @ model @ ''/results'',
      results_file = ''exp/'' @ model @ ''/results/results.csv'',
      config_file = ''exp/'' @ model @ ''/config.yml''\<rparr>"

definition demo_paths :: save_paths where
  "demo_paths = demo_paths_for ''llama''"

text \<open>The serialized form of a configuration, and the loader that reads it back.\<close>

definition demo_dump :: "string \<Rightarrow> string" where
  "demo_dump model = ''model: '' @ model"

definition demo_yaml_safe_load :: "string \<Rightarrow> error + yaml" where
  "demo_yaml_safe_load s =
     (if take 7 s = ''model: '' then Inr (YDict [(''model'', YStr (drop 7 s))])
      else if s = ''lr: 3'' then Inr (YDict [(''lr'', YInt 3)])
      else if s = ''{model: llama, ablation: {use_ablate: true}}'' then
        Inr (YDict [(''model'', YStr ''llama''), (''ablation'', YDict [(''use_ablate'', YBool True)])])
      else if s = ''{lr: 3, ablation: {use_ablate: true}}'' then
        Inr (YDict [(''lr'', YInt 3), (''ablation'', YDict [(''use_ablate'', YBool True)])])
      else Inl (OtherError ''YAMLError''))"

definition demo_Config :: "yaml \<Rightarrow> error + string" where
  "demo_Config y =
     (case y of
        YDict kvs \<Rightarrow>
          (case map_of kvs ''model'' of
             Some (YStr m) \<Rightarrow> Inr m
           | _ \<Rightarrow> Inl (ValidationError ''model: field required''))
      | _ \<Rightarrow> Inl (OtherError ''TypeError''))"

text \<open>
  A raw mapping has none of the attributes the helper reads, so it raises
  AttributeError on one. For a validated configuration the paths are derived from the
  configuration, and the configuration is written to its config file unless one is there.
\<close>

definition demo_DirectoryHelper :: "path \<Rightarrow> string config_obj \<Rightarrow> fs \<Rightarrow> (error + save_paths) \<times> fs" where
  "demo_DirectoryHelper config_path config s =
     (case config of
        RawDict _ \<Rightarrow> (Inl AttributeError, s)
      | Validated model \<Rightarrow>
          (case s (config_file (demo_paths_for model)) of
             Some _ \<Rightarrow> (Inr (demo_paths_for model), s)
           | None \<Rightarrow>
               (Inr (demo_paths_for model),
                s(config_file (demo_paths_for model) \<mapsto> File (demo_dump model)))))"

definition demo_load :: "unit \<Rightarrow> path \<Rightarrow> fs \<Rightarrow> (error + (nat list \<times> nat list)) \<times> fs" where
  "demo_load g p s =
     (case s p of
        Some (File content) \<Rightarrow>
          (if content = ''[1,2],[3]'' then (Inr ([1, 2], [3]), s)
           else if content = ''[],[3]'' then (Inr ([], [3]), s)
           else (Inl (OtherError ''UnpicklingError''), s))
      | _ \<Rightarrow> (Inl FileNotFoundError, s))"

definition demo_save_model :: "save_paths \<Rightarrow> fs \<Rightarrow> (error + unit) \<times> fs" where
  "demo_save_model ft s =
     (case s (weights ft) of
        Some (File _) \<Rightarrow> (Inl NotADirectoryError, s)
      | Some (Dir names) \<Rightarrow> (Inr (), s(weights ft \<mapsto> Dir (''adapter_model.bin'' # names)))
      | None \<Rightarrow> (Inr (), s(weights ft \<mapsto> Dir [''adapter_model.bin''])))"

definition demo :: "(string, nat, unit, save_paths, save_paths) collaborators" where
  "demo = \<lparr>
     yaml_safe_load = demo_yaml_safe_load,
     generate_permutations = (\<lambda>config. Inr [config, config]),
     Config = demo_Config,
     DirectoryHelper = demo_DirectoryHelper,
     DatasetGenerator = (\<lambda>config s. (Inr (), s)),
     test_columns = (\<lambda>g. [''label'']),
     get_dataset = (\<lambda>g s. (Inr ([1, 2], [3], g), s)),
     save_dataset = (\<lambda>g p s. (Inr (), s(p \<mapsto> File ''[1,2],[3]''))),
     load_dataset_from_pickle = demo_load,
     LoRAFinetune = (\<lambda>config dir_helper s. (Inr dir_helper, s)),
     finetune = (\<lambda>ft train s. (Inr ft, s)),
     save_model = demo_save_model,
     LoRAInference = (\<lambda>test cols config dir_helper s. (Inr dir_helper, s)),
     infer_all = (\<lambda>runner s. (Inr (), s(results_file runner \<mapsto> File ''csv'')))
   \<rparr>"

text \<open>The same environment with a fine-tuning step that raises.\<close>

definition demo_failing_finetune :: "(string, nat, unit, save_paths, save_paths) collaborators" where
  "demo_failing_finetune =
     demo\<lparr>finetune := (\<lambda>ft train s. (Inl (OtherError ''CUDA out of memory''), s))\<rparr>"

text \<open>The same environment with a fine-tuning step that saves no weights.\<close>

definition demo_no_weights :: "(string, nat, unit, save_paths, save_paths) collaborators" where
  "demo_no_weights = demo\<lparr>save_model := (\<lambda>ft s. (Inr (), s))\<rparr>"

text \<open>A fresh directory holding only the source config file.\<close>

definition fresh_world :: "(string, nat) world" where
  "fresh_world = \<lparr>files = [''config.yml'' \<mapsto> File ''model: llama''], trace = []\<rparr>"

text \<open>The directory after a completed run: every artifact is there.\<close>

definition complete_files :: fs where
  "complete_files = [''config.yml'' \<mapsto> File ''model: llama'',
     ''exp/llama/config.yml'' \<mapsto> File ''model: llama'',
     ''exp/llama/dataset.pkl'' \<mapsto> File ''[1,2],[3]'',
     ''exp/llama/weights'' \<mapsto> Dir [''adapter_model.bin''],
     ''exp/llama/results/results.csv'' \<mapsto> File ''csv'']"

text \<open>Only the dataset artifact is there.\<close>

definition dataset_only_world :: "(string, nat) world" where
  "dataset_only_world = \<lparr>files = [''config.yml'' \<mapsto> File ''model: llama'',
     ''exp/llama/config.yml'' \<mapsto> File ''model: llama'',
     ''exp/llama/dataset.pkl'' \<mapsto> File ''[1,2],[3]''], trace = []\<rparr>"

text \<open>Every artifact is there, and the dataset file holds an empty train split.\<close>

definition empty_train_world :: "(string, nat) world" where
  "empty_train_world =
     \<lparr>files = complete_files(''exp/llama/dataset.pkl'' \<mapsto> File ''[],[3]''), trace = []\<rparr>"

text \<open>
  The source config file describes a sweep of two items with no model, so each item
  fails validation.
\<close>

definition invalid_sweep_world :: "(string, nat) world" where
  "invalid_sweep_world =
     \<lparr>files = [''config.yml'' \<mapsto> File ''{lr: 3, ablation: {use_ablate: true}}''], trace = []\<rparr>"

text \<open>The persisted config is the one that fails validation.\<close>

definition bad_persisted_world :: "(string, nat) world" where
  "bad_persisted_world = \<lparr>files = [''config.yml'' \<mapsto> File ''model: llama'',
     ''exp/llama/config.yml'' \<mapsto> File ''lr: 3''], trace = []\<rparr>"

text \<open>A sweep of two items, each of which reloads a persisted config that is invalid.\<close>

definition sweep_bad_persisted_world :: "(string, nat) world" where
  "sweep_bad_persisted_world =
     \<lparr>files = [''config.yml'' \<mapsto> File ''{model: llama, ablation: {use_ablate: true}}'',
        ''exp/llama/config.yml'' \<mapsto> File ''lr: 3''], trace = []\<rparr>"

text \<open>The persisted config names another model than the source config file.\<close>

definition other_persisted_world :: "(string, nat) world" where
  "other_persisted_world =
     \<lparr>files = complete_files(''exp/llama/config.yml'' \<mapsto> File ''model: mistral''), trace = []\<rparr>"

lemmas m_defs = bnd_def ret_def raise_def emit_def call_def call_pure_def lift_def
  path_exists_def iterdir_def open_read_def index0_def dict_get_def

lemmas prog_defs = loading_data_def loading_model_def inference_def run_one_experiment_def
  run_configs_def validate_first_def resolve_reload_run_def run_item_def run_def

lemmas demo_defs = demo_def demo_failing_finetune_def demo_no_weights_def demo_paths_def
  demo_paths_for_def demo_dump_def demo_yaml_safe_load_def demo_Config_def
  demo_DirectoryHelper_def demo_load_def demo_save_model_def fresh_world_def complete_files_def
  dataset_only_world_def empty_train_world_def invalid_sweep_world_def bad_persisted_world_def
  sweep_bad_persisted_world_def other_persisted_world_def

section \<open>Sequencing\<close>

lemma bnd_Inr_iff:
  "bnd m f w = (Inr y, w') \<longleftrightarrow> (\<exists>x w1. m w = (Inr x, w1) \<and> f x w1 = (Inr y, w'))"
  by (auto simp: bnd_def split: prod.splits sum.splits)

lemma call_Inr_iff:
  "call ev g w = (Inr x, w') \<longleftrightarrow>
     (\<exists>s'. g (files w) = (Inr x, s') \<and> w' = w\<lparr>files := s', trace := trace w @ [ev]\<rparr>)"
  by (auto simp: call_def split: prod.splits)

lemma emit_iff:
  "emit ev w = (r, w') \<longleftrightarrow> r = Inr () \<and> w' = w\<lparr>trace := trace w @ [ev]\<rparr>"
  by (auto simp: emit_def)

lemma ret_iff: "ret x w = (r, w') \<longleftrightarrow> r = Inr x \<and> w' = w"
  by (auto simp: ret_def)

lemma path_exists_iff:
  "path_exists p w = (r, w') \<longleftrightarrow> r = Inr (files w p \<noteq> None) \<and> w' = w"
  by (auto simp: path_exists_def)

lemma index0_Inr_iff:
  "index0 xs w = (Inr x, w') \<longleftrightarrow> (\<exists>ys. xs = x # ys) \<and> w' = w"
  by (auto simp: index0_def split: list.splits)

lemma iterdir_Inr_iff:
  "iterdir p w = (Inr names, w') \<longleftrightarrow> files w p = Some (Dir names) \<and> w' = w"
  by (auto simp: iterdir_def split: option.splits entry.splits)


section \<open>Trace of a computation\<close>

lemma oa_ret: "only_appends ok (ret x)"
  by (simp add: only_appends_def ret_def)

lemma oa_raise: "only_appends ok (raise e)"
  by (simp add: only_appends_def raise_def)

lemma oa_lift: "only_appends ok (lift r)"
  by (simp add: only_appends_def lift_def)

lemma oa_path_exists: "only_appends ok (path_exists p)"
  by (simp add: only_appends_def path_exists_def)

lemma oa_iterdir: "only_appends ok (iterdir p)"
  by (simp add: only_appends_def iterdir_def split: option.splits entry.splits)

lemma oa_index0: "only_appends ok (index0 xs)"
  by (simp add: only_appends_def index0_def split: list.splits)

lemma oa_emit: "ok ev \<Longrightarrow> only_appends ok (emit ev)"
  by (simp add: only_appends_def emit_def)

lemma oa_call: "ok ev \<Longrightarrow> only_appends ok (call ev f)"
  by (simp add: only_appends_def call_def split: prod.splits)

lemma oa_call_pure: "ok ev \<Longrightarrow> only_appends ok (call_pure ev r)"
  by (simp add: only_appends_def call_pure_def)

lemma oa_open_read: "ok (Open_read p) \<Longrightarrow> only_appends ok (open_read p)"
  by (simp add: only_appends_def open_read_def split: option.splits entry.splits)

lemma oa_bnd:
  assumes "only_appends ok m" and "\<And>x. only_appends ok (f x)"
  shows "only_appends ok (bnd m f)"
  unfolding only_appends_def
proof
  fix w
  from assms(1) obtain evs where m: "trace (snd (m w)) = trace w @ evs" "list_all ok evs"
    unfolding only_appends_def by blast
  show "\<exists>evs. trace (snd (bnd m f w)) = trace w @ evs \<and> list_all ok evs"
  proof (cases "m w")
    case (Pair r w')
    show ?thesis
    proof (cases r)
      case (Inl e)
      with Pair m show ?thesis by (auto simp: bnd_def)
    next
      case (Inr x)
      from assms(2)[of x] obtain evs' where
        f: "trace (snd (f x w')) = trace w' @ evs'" "list_all ok evs'"
        unfolding only_appends_def by blast
      with Pair Inr m have "trace (snd (bnd m f w)) = trace w @ (evs @ evs')"
        by (simp add: bnd_def)
      moreover have "list_all ok (evs @ evs')" using m f by simp
      ultimately show ?thesis by blast
    qed
  qed
qed

lemma oa_if:
  "only_appends ok a \<Longrightarrow> only_appends ok b \<Longrightarrow> only_appends ok (if c then a else b)"
  by simp

lemma oa_case_prod:
  "(\<And>a b. only_appends ok (f a b)) \<Longrightarrow> only_appends ok (case x of (a, b) \<Rightarrow> f a b)"
  by (cases x) simp

lemmas oa_intros = oa_bnd oa_if oa_case_prod oa_ret oa_raise oa_lift oa_path_exists oa_iterdir
  oa_index0 oa_emit oa_call oa_call_pure oa_open_read

lemma only_appends_new_events:
  assumes "only_appends ok m"
  shows "list_all ok (new_events w (snd (m w)))"
proof -
  from assms obtain evs where "trace (snd (m w)) = trace w @ evs" "list_all ok evs"
    unfolding only_appends_def by blast
  then show ?thesis by (simp add: new_events_def)
qed

lemma only_appends_filter:
  assumes "only_appends (\<lambda>ev. \<not> bad ev) m"
  shows "filter bad (new_events w (snd (m w))) = []"
  using only_appends_new_events[OF assms, of w]
  by (simp add: list_all_iff filter_empty_conv)

lemma oa_loading_data:
  "only_appends (\<lambda>ev. \<not> is_finetune_call ev \<and> \<not> is_inference_call ev) (loading_data E config P)"
  unfolding loading_data_def by (intro oa_intros) simp_all

lemma oa_loading_model:
  "only_appends (\<lambda>ev. \<not> is_generation_call ev \<and> \<not> is_inference_call ev)
     (loading_model E config P train)"
  unfolding loading_model_def by (intro oa_intros) simp_all

lemma oa_inference:
  "only_appends (\<lambda>ev. \<not> is_generation_call ev \<and> \<not> is_finetune_call ev)
     (inference E config P test cols)"
  unfolding inference_def by (intro oa_intros) simp_all

section \<open>The stages, branch by branch\<close>

lemma inference_hit:
  assumes "files w (results_file P) \<noteq> None"
  shows "inference E config P test cols w =
     (Inr (), w\<lparr>trace := trace w @ [UI_before_inference, UI_results_found (results P)]\<rparr>)"
proof -
  from assms obtain y where "files w (results_file P) = Some y" by auto
  then show ?thesis by (simp add: inference_def m_defs)
qed

lemma inference_miss:
  assumes "files w (results_file P) = None"
    and "LoRAInference E test cols config P (files w) = (Inr runner, fs1)"
    and "infer_all E runner fs1 = (Inr (), fs2)"
  shows "inference E config P test cols w =
     (Inr (), w\<lparr>files := fs2, trace := trace w @ [UI_before_inference,
        New_LoRAInference test cols config P, Call_infer_all, UI_after_inference (results P)]\<rparr>)"
  using assms by (simp add: inference_def m_defs)

lemma loading_model_hit:
  assumes "files w (weights P) = Some (Dir (n # ns))"
  shows "loading_model E config P train w =
     (Inr (), w\<lparr>trace := trace w @ [UI_before_finetune, UI_finetune_found (weights P)]\<rparr>)"
  using assms by (simp add: loading_model_def m_defs)

lemma loading_model_miss:
  assumes "files w (weights P) = None \<or> files w (weights P) = Some (Dir [])"
    and "LoRAFinetune E config P (files w) = (Inr ft, fs1)"
    and "finetune E ft train fs1 = (Inr ft', fs2)"
    and "save_model E ft' fs2 = (Inr (), fs3)"
  shows "loading_model E config P train w =
     (Inr (), w\<lparr>files := fs3, trace := trace w @ [UI_before_finetune,
        New_LoRAFinetune config P, UI_during_finetune, Call_finetune train, Call_save_model,
        UI_after_finetune]\<rparr>)"
  using assms by (auto simp add: loading_model_def m_defs)

lemma loading_model_not_a_directory:
  assumes "files w (weights P) = Some (File text)"
  shows "loading_model E config P train w =
     (Inl NotADirectoryError, w\<lparr>trace := trace w @ [UI_before_finetune]\<rparr>)"
  using assms by (simp add: loading_model_def m_defs)

lemma loading_model_miss_starts:
  assumes "files w (weights P) = None \<or> files w (weights P) = Some (Dir [])"
  shows "\<exists>evs. new_events w (snd (loading_model E config P train w)) =
           UI_before_finetune # New_LoRAFinetune config P # evs"
proof -
  let ?rest = "\<lambda>finetuner. bnd (emit UI_during_finetune) (\<lambda>_.
       bnd (call (Call_finetune train) (finetune E finetuner train)) (\<lambda>finetuner'.
       bnd (call Call_save_model (save_model E finetuner')) (\<lambda>_.
       emit UI_after_finetune)))"
  let ?w1 = "w\<lparr>trace := trace w @ [UI_before_finetune]\<rparr>"
  have eq: "loading_model E config P train w =
      bnd (call (New_LoRAFinetune config P) (LoRAFinetune E config P)) ?rest ?w1"
    using assms by (auto simp add: loading_model_def bnd_def ret_def emit_def path_exists_def
        iterdir_def)
  have rest: "only_appends (\<lambda>_. True) (?rest ft)" for ft
    by (intro oa_intros) simp_all
  obtain r s where c: "LoRAFinetune E config P (files w) = (r, s)" by force
  show ?thesis
  proof (cases r)
    case (Inl e)
    with c eq show ?thesis by (simp add: bnd_def call_def new_events_def)
  next
    case (Inr ft)
    let ?w2 = "w\<lparr>files := s, trace := trace w @ [UI_before_finetune, New_LoRAFinetune config P]\<rparr>"
    from rest[of ft] obtain evs where "trace (snd (?rest ft ?w2)) = trace ?w2 @ evs"
      unfolding only_appends_def by blast
    with c eq Inr show ?thesis by (simp add: bnd_def call_def new_events_def)
  qed
qed

lemma loading_model_calls:
  "filter is_finetune_call (new_events w (snd (loading_model E config P train w))) = [] \<longleftrightarrow>
     files w (weights P) \<noteq> None \<and> files w (weights P) \<noteq> Some (Dir [])"
proof (cases "files w (weights P)")
  case None
  with loading_model_miss_starts[of w P E config train] show ?thesis by auto
next
  case (Some entry)
  show ?thesis
  proof (cases entry)
    case (File content)
    with Some show ?thesis by (simp add: loading_model_not_a_directory new_events_def)
  next
    case (Dir names)
    show ?thesis
    proof (cases names)
      case Nil
      with Some Dir loading_model_miss_starts[of w P E config train] show ?thesis by auto
    next
      case (Cons n ns)
      with Some Dir show ?thesis by (simp add: loading_model_hit new_events_def)
    qed
  qed
qed

lemma loading_data_hit:
  assumes "DatasetGenerator E config (files w) = (Inr g, fs1)"
    and "fs1 (dataset P) \<noteq> None"
    and "load_dataset_from_pickle E g (dataset P) fs1 = (Inr (a # train, b # test), fs2)"
  shows "loading_data E config P w =
     (Inr (a # train, b # test, test_columns E g),
      w\<lparr>files := fs2, trace := trace w @ [UI_before_dataset_creation, UI_during_dataset_creation,
        New_DatasetGenerator config, UI_dataset_found (dataset P),
        Call_load_dataset_from_pickle (dataset P), UI_dataset_display_one_example a b,
        UI_after_dataset_creation (dataset P) (a # train) (b # test)]\<rparr>)"
proof -
  from assms(2) obtain y where "fs1 (dataset P) = Some y" by auto
  with assms(1,3) show ?thesis by (simp add: loading_data_def m_defs)
qed

lemma loading_data_miss:
  assumes "DatasetGenerator E config (files w) = (Inr g, fs1)"
    and "fs1 (dataset P) = None"
    and "get_dataset E g fs1 = (Inr (a # train, b # test, g'), fs2)"
    and "save_dataset E g' (dataset P) fs2 = (Inr (), fs3)"
  shows "loading_data E config P w =
     (Inr (a # train, b # test, test_columns E g),
      w\<lparr>files := fs3, trace := trace w @ [UI_before_dataset_creation, UI_during_dataset_creation,
        New_DatasetGenerator config, Call_get_dataset, Call_save_dataset (dataset P),
        UI_dataset_display_one_example a b,
        UI_after_dataset_creation (dataset P) (a # train) (b # test)]\<rparr>)"
  using assms by (simp add: loading_data_def m_defs)

lemma loading_data_hit_no_generation:
  assumes "DatasetGenerator E config (files w) = (r, fs1)" and "fs1 (dataset P) \<noteq> None"
  shows "filter is_generation_call (new_events w (snd (loading_data E config P w))) = []"
proof -
  from assms(2) obtain y where y: "fs1 (dataset P) = Some y" by auto
  show ?thesis
  proof (cases r)
    case (Inl e)
    with assms(1) show ?thesis by (simp add: loading_data_def m_defs new_events_def)
  next
    case (Inr g)
    obtain r2 fs2 where l: "load_dataset_from_pickle E g (dataset P) fs1 = (r2, fs2)" by force
    show ?thesis
    proof (cases r2)
      case (Inl e)
      with assms(1) Inr y l show ?thesis by (simp add: loading_data_def m_defs new_events_def)
    next
      case (Inr d)
      obtain train test where d: "d = (train, test)" by force
      with assms(1) \<open>r = Inr g\<close> y l Inr show ?thesis
        by (cases train; cases test) (simp_all add: loading_data_def m_defs new_events_def)
    qed
  qed
qed

lemma loading_data_Inr:
  assumes "loading_data E config P w = (Inr (train, test, cols), w')"
  shows "\<exists>g s1 a train' b test'. DatasetGenerator E config (files w) = (Inr g, s1) \<and>
           train = a # train' \<and> test = b # test' \<and> cols = test_columns E g \<and>
           (if s1 (dataset P) = None
            then generate_and_save E g (dataset P) s1 = (Inr (train, test), files w') \<and>
                 new_events w w' = [UI_before_dataset_creation, UI_during_dataset_creation,
                   New_DatasetGenerator config, Call_get_dataset, Call_save_dataset (dataset P),
                   UI_dataset_display_one_example a b,
                   UI_after_dataset_creation (dataset P) train test]
            else load_dataset_from_pickle E g (dataset P) s1 = (Inr (train, test), files w') \<and>
                 new_events w w' = [UI_before_dataset_creation, UI_during_dataset_creation,
                   New_DatasetGenerator config, UI_dataset_found (dataset P),
                   Call_load_dataset_from_pickle (dataset P),
                   UI_dataset_display_one_example a b,
                   UI_after_dataset_creation (dataset P) train test])"
  using assms
  apply (simp add: loading_data_def bnd_Inr_iff call_Inr_iff emit_iff ret_iff path_exists_iff
      index0_Inr_iff)
  apply (elim exE conjE)
  apply (simp split: if_splits add: bnd_Inr_iff call_Inr_iff emit_iff ret_iff)
   apply (elim exE conjE)
   apply (auto simp: generate_and_save_def bnd_def ret_def new_events_def)
  done

lemma loading_data_post:
  assumes "loading_data E config P w = (Inr (train, test, cols), w')"
  shows "train \<noteq> [] \<and> test \<noteq> [] \<and>
     UI_dataset_display_one_example (hd train) (hd test) \<in> set (new_events w w')"
  using loading_data_Inr[OF assms] by (auto split: if_splits)

lemma loading_data_empty_split:
  assumes "DatasetGenerator E config (files w) = (Inr g, fs1)"
    and "if fs1 (dataset P) = None
         then generate_and_save E g (dataset P) fs1 = (Inr (train, test), fs3)
         else load_dataset_from_pickle E g (dataset P) fs1 = (Inr (train, test), fs3)"
    and "train = [] \<or> test = []"
  shows "\<exists>evs. loading_data E config P w = (Inl IndexError, w\<lparr>files := fs3, trace := trace w @ evs\<rparr>)
           \<and> list_all (\<lambda>ev. \<not> is_finetune_call ev \<and> \<not> is_inference_call ev) evs"
proof (cases "fs1 (dataset P)")
  case None
  with assms(2) have gs: "generate_and_save E g (dataset P) fs1 = (Inr (train, test), fs3)" by simp
  then obtain g' fs2 where "get_dataset E g fs1 = (Inr (train, test, g'), fs2)"
      "save_dataset E g' (dataset P) fs2 = (Inr (), fs3)"
    by (auto simp: generate_and_save_def bnd_def ret_def split: prod.splits sum.splits)
  with assms(1,3) None show ?thesis
    by (cases train; cases test) (auto simp add: loading_data_def m_defs)
next
  case (Some y)
  with assms(2) have "load_dataset_from_pickle E g (dataset P) fs1 = (Inr (train, test), fs3)" by simp
  with assms(1,3) Some show ?thesis
    by (cases train; cases test) (auto simp add: loading_data_def m_defs)
qed

lemma loading_model_result:
  assumes "files w (weights P) = None \<or> files w (weights P) = Some (Dir [])"
  shows "fst (loading_model E config P train w) = fst (fit_and_save E config P train (files w)) \<and>
         files (snd (loading_model E config P train w)) = snd (fit_and_save E config P train (files w))"
proof -
  obtain r1 s1 where c1: "LoRAFinetune E config P (files w) = (r1, s1)" by force
  show ?thesis
  proof (cases r1)
    case (Inl e)
    with c1 assms show ?thesis by (auto simp add: loading_model_def fit_and_save_def m_defs)
  next
    case (Inr ft)
    note ft = this
    obtain r2 s2 where c2: "finetune E ft train s1 = (r2, s2)" by force
    show ?thesis
    proof (cases r2)
      case (Inl e)
      with c1 c2 ft assms show ?thesis by (auto simp add: loading_model_def fit_and_save_def m_defs)
    next
      case (Inr ft')
      obtain r3 s3 where c3: "save_model E ft' s2 = (r3, s3)" by force
      with c1 c2 ft Inr assms show ?thesis
        by (cases r3) (auto simp add: loading_model_def fit_and_save_def m_defs)
    qed
  qed
qed

lemma loading_model_Inr:
  assumes "loading_model E config P train w = (Inr (), w')"
  shows "(\<exists>n ns. files w (weights P) = Some (Dir (n # ns)) \<and> files w' = files w) \<or>
         ((files w (weights P) = None \<or> files w (weights P) = Some (Dir [])) \<and>
          fit_and_save E config P train (files w) = (Inr (), files w'))"
proof (cases "files w (weights P)")
  case None
  with loading_model_result[of w P E config train] assms show ?thesis
    by (cases "fit_and_save E config P train (files w)") auto
next
  case (Some entry)
  show ?thesis
  proof (cases entry)
    case (File content)
    with Some assms show ?thesis by (simp add: loading_model_not_a_directory)
  next
    case (Dir names)
    show ?thesis
    proof (cases names)
      case Nil
      with Some Dir loading_model_result[of w P E config train] assms show ?thesis
        by (cases "fit_and_save E config P train (files w)") auto
    next
      case (Cons n ns)
      with Some Dir assms show ?thesis by (auto simp add: loading_model_hit)
    qed
  qed
qed

lemma inference_result:
  assumes "files w (results_file P) = None"
  shows "fst (inference E config P test cols w) = fst (infer E config P test cols (files w)) \<and>
         files (snd (inference E config P test cols w)) = snd (infer E config P test cols (files w))"
proof -
  obtain r1 s1 where c1: "LoRAInference E test cols config P (files w) = (r1, s1)" by force
  show ?thesis
  proof (cases r1)
    case (Inl e)
    with c1 assms show ?thesis by (auto simp add: inference_def infer_def m_defs)
  next
    case (Inr runner)
    obtain r2 s2 where c2: "infer_all E runner s1 = (r2, s2)" by force
    with c1 Inr assms show ?thesis
      by (cases r2) (auto simp add: inference_def infer_def m_defs)
  qed
qed

lemma inference_Inr:
  assumes "inference E config P test cols w = (Inr (), w')"
  shows "(files w (results_file P) \<noteq> None \<and> files w' = files w) \<or>
         (files w (results_file P) = None \<and>
          infer E config P test cols (files w) = (Inr (), files w'))"
proof (cases "files w (results_file P)")
  case None
  with inference_result[of w P E config test cols] assms show ?thesis
    by (cases "infer E config P test cols (files w)") auto
next
  case (Some y)
  then have "files w (results_file P) \<noteq> None" by simp
  from inference_hit[OF this, of E config test cols] assms Some show ?thesis by auto
qed

section \<open>The loop body\<close>

lemma validate_first_caught:
  assumes "Config E config = Inl (ValidationError j)"
  shows "validate_first E config w =
     (Inr (RawDict config), w\<lparr>trace := trace w @ [New_Config config, Print j]\<rparr>)"
  using assms by (simp add: validate_first_def m_defs)

lemma validate_first_valid:
  assumes "Config E config = Inr validated"
  shows "validate_first E config w =
     (Inr (Validated validated), w\<lparr>trace := trace w @ [New_Config config]\<rparr>)"
  using assms by (simp add: validate_first_def m_defs)



lemma resolve_reload_run_valid:
  assumes "DirectoryHelper E cp config1 (files w1) = (Inr dir_helper, fs2)"
    and "fs2 (config_file dir_helper) = Some (File content)"
    and "yaml_safe_load E content = Inr config2"
    and "Config E config2 = Inr config3"
  shows "resolve_reload_run E cp config1 w1 =
     run_one_experiment E config3 cp (w1\<lparr>files := fs2, trace := trace w1 @
        [New_DirectoryHelper cp config1, Open_read (config_file dir_helper),
         Yaml_safe_load content, New_Config config2]\<rparr>)"
  using assms by (simp add: resolve_reload_run_def m_defs)

lemma resolve_reload_run_starts:
  "\<exists>evs. trace (snd (resolve_reload_run E cp config1 w)) =
           trace w @ New_DirectoryHelper cp config1 # evs"
proof -
  let ?rest = "\<lambda>dir_helper. bnd (open_read (config_file dir_helper)) (\<lambda>content.
     bnd (call_pure (Yaml_safe_load content) (yaml_safe_load E content)) (\<lambda>config2.
     bnd (call_pure (New_Config config2) (Config E config2)) (\<lambda>config3.
     run_one_experiment E config3 cp)))"
  have rest: "only_appends (\<lambda>_. True) (?rest dh)" for dh :: save_paths
    unfolding run_one_experiment_def loading_data_def loading_model_def inference_def
    by (intro oa_intros) simp_all
  obtain r s where c: "DirectoryHelper E cp config1 (files w) = (r, s)" by force
  show ?thesis
  proof (cases r)
    case (Inl e)
    with c show ?thesis by (simp add: resolve_reload_run_def bnd_def call_def)
  next
    case (Inr dh)
    let ?w2 = "w\<lparr>files := s, trace := trace w @ [New_DirectoryHelper cp config1]\<rparr>"
    from rest[of dh] obtain evs where "trace (snd (?rest dh ?w2)) = trace ?w2 @ evs"
      unfolding only_appends_def by blast
    with c Inr show ?thesis by (simp add: resolve_reload_run_def bnd_def call_def)
  qed
qed

lemma oa_run_one_experiment: "only_appends (\<lambda>_. True) (run_one_experiment E config cp)"
  unfolding run_one_experiment_def loading_data_def loading_model_def inference_def
  by (intro oa_intros) simp_all

lemma oa_resolve_reload_run: "only_appends (\<lambda>_. True) (resolve_reload_run E cp config1)"
  unfolding resolve_reload_run_def by (intro oa_intros oa_run_one_experiment) simp_all

lemma oa_validate_first: "only_appends (\<lambda>_. True) (validate_first E config)"
  by (auto simp: only_appends_def validate_first_def m_defs split: sum.splits error.splits)

lemma oa_run_item: "only_appends (\<lambda>_. True) (run_item E cp config)"
  unfolding run_item_def by (intro oa_bnd oa_validate_first oa_resolve_reload_run)

lemma oa_run_loop: "only_appends (\<lambda>_. True) (run_loop E cp configs)"
  by (induction configs) (auto intro: oa_intros oa_run_item)

lemma bnd_trace_extends:
  assumes "trace (snd (m w)) = trace w @ xs" and "\<And>x. only_appends ok (f x)"
  shows "\<exists>ys. trace (snd (bnd m f w)) = trace w @ xs @ ys"
proof (cases "m w")
  case (Pair r w')
  show ?thesis
  proof (cases r)
    case (Inl e)
    with Pair assms(1) show ?thesis by (simp add: bnd_def)
  next
    case (Inr x)
    from assms(2)[of x] obtain ys where "trace (snd (f x w')) = trace w' @ ys"
      unfolding only_appends_def by blast
    with Pair Inr assms(1) show ?thesis by (simp add: bnd_def)
  qed
qed

lemma run_loop_after_caught_validation:
  assumes "Config E config = Inl (ValidationError j)"
  shows "run_loop E cp (config # configs) w =
     bnd (resolve_reload_run E cp (RawDict config)) (\<lambda>_. run_loop E cp configs)
       (w\<lparr>trace := trace w @ [New_Config config, Print j]\<rparr>)"
  by (simp add: run_item_def bnd_def validate_first_caught[OF assms])


section \<open>Expansion of the raw configuration\<close>

text \<open>
  C4, as the code has it. When the raw configuration is a mapping whose
  \<^verbatim>\<open>ablation\<close> entry is absent, or is a mapping in which \<^verbatim>\<open>use_ablate\<close> is absent or
  has a false truth value (False, null, 0, an empty string, list or mapping), the list of
  configurations is the one-element list holding the raw configuration itself.
\<close>

theorem run_configs_ablation_disabled:
  assumes "map_of kvs ''ablation'' = None \<or>
           map_of kvs ''ablation'' = Some (YDict ablation) \<and>
             (map_of ablation ''use_ablate'' = None \<or>
              map_of ablation ''use_ablate'' = Some flag \<and> \<not> truthy flag)"
  shows "run_configs E (YDict kvs) = Inr [YDict kvs]"
  using assms by (auto simp: run_configs_def dict_get_def)

theorem run_configs_ablation_disabled_witness:
  "map_of [(''model'', YStr ''llama'')] ''ablation'' = None \<and>
   run_configs demo (YDict [(''model'', YStr ''llama'')]) = Inr [YDict [(''model'', YStr ''llama'')]] \<and>
   map_of [(''model'', YStr ''llama''), (''ablation'', YDict [(''use_ablate'', YBool False)])]
     ''ablation'' = Some (YDict [(''use_ablate'', YBool False)]) \<and>
   map_of [(''use_ablate'', YBool False)] ''use_ablate'' = Some (YBool False) \<and>
   \<not> truthy (YBool False) \<and>
   run_configs demo
     (YDict [(''model'', YStr ''llama''), (''ablation'', YDict [(''use_ablate'', YBool False)])]) =
     Inr [YDict [(''model'', YStr ''llama''), (''ablation'', YDict [(''use_ablate'', YBool False)])]] \<and>
   map_of [(''ablation'', YDict [(''use_ablate'', YInt 0)])] ''ablation'' =
     Some (YDict [(''use_ablate'', YInt 0)]) \<and>
   map_of [(''use_ablate'', YInt 0)] ''use_ablate'' = Some (YInt 0) \<and>
   \<not> truthy (YInt 0) \<and>
   run_configs demo (YDict [(''ablation'', YDict [(''use_ablate'', YInt 0)])]) =
     Inr [YDict [(''ablation'', YDict [(''use_ablate'', YInt 0)])]]"
proof -
  note t = run_configs_ablation_disabled
  have a1: "map_of [(''model'', YStr ''llama'')] ''ablation'' = None" by simp
  from t[where kvs = "[(''model'', YStr ''llama'')]" and E = demo] a1
  have c1: "run_configs demo (YDict [(''model'', YStr ''llama'')]) =
      Inr [YDict [(''model'', YStr ''llama'')]]" by blast
  have b1: "map_of [(''model'', YStr ''llama''), (''ablation'', YDict [(''use_ablate'', YBool False)])]
     ''ablation'' = Some (YDict [(''use_ablate'', YBool False)])" by simp
  have b2: "map_of [(''use_ablate'', YBool False)] ''use_ablate'' = Some (YBool False)" by simp
  have b3: "\<not> truthy (YBool False)" by simp
  from t[where kvs = "[(''model'', YStr ''llama''), (''ablation'', YDict [(''use_ablate'', YBool False)])]"
      and ablation = "[(''use_ablate'', YBool False)]" and flag = "YBool False" and E = demo] b1 b2 b3
  have c2: "run_configs demo
     (YDict [(''model'', YStr ''llama''), (''ablation'', YDict [(''use_ablate'', YBool False)])]) =
     Inr [YDict [(''model'', YStr ''llama''), (''ablation'', YDict [(''use_ablate'', YBool False)])]]"
    by blast
  have d1: "map_of [(''ablation'', YDict [(''use_ablate'', YInt 0)])] ''ablation'' =
     Some (YDict [(''use_ablate'', YInt 0)])" by simp
  have d2: "map_of [(''use_ablate'', YInt 0)] ''use_ablate'' = Some (YInt 0)" by simp
  have d3: "\<not> truthy (YInt 0)" by simp
  from t[where kvs = "[(''ablation'', YDict [(''use_ablate'', YInt 0)])]"
      and ablation = "[(''use_ablate'', YInt 0)]" and flag = "YInt 0" and E = demo] d1 d2 d3
  have c3: "run_configs demo (YDict [(''ablation'', YDict [(''use_ablate'', YInt 0)])]) =
     Inr [YDict [(''ablation'', YDict [(''use_ablate'', YInt 0)])]]"
    by blast
  show ?thesis using a1 c1 b1 b2 b3 c2 d1 d2 d3 c3 by blast
qed

text \<open>
  C4 as stated fails where the \<^verbatim>\<open>ablation\<close> entry is there but is not a mapping, as
  for the YAML line \<^verbatim>\<open>ablation:\<close> with nothing after it: the flag is absent, the first
  \<^verbatim>\<open>get\<close> returns None, and the second raises AttributeError instead of giving the
  one-element list.
\<close>

theorem run_configs_ablation_null_counterexample:
  "map_of [(''model'', YStr ''llama''), (''ablation'', YNull)] ''ablation'' = Some YNull \<and>
   dict_get (YDict [(''model'', YStr ''llama''), (''ablation'', YNull)]) ''ablation'' (YDict []) =
     Inr YNull \<and>
   dict_get YNull ''use_ablate'' (YBool False) = Inl AttributeError \<and>
   run_configs demo (YDict [(''model'', YStr ''llama''), (''ablation'', YNull)]) =
     Inl AttributeError \<and>
   run_configs demo (YDict [(''model'', YStr ''llama''), (''ablation'', YNull)]) \<noteq>
     Inr [YDict [(''model'', YStr ''llama''), (''ablation'', YNull)]]"
  by (simp add: run_configs_def dict_get_def)

section \<open>Stage 2: fine-tuning\<close>

text \<open>
  C3. Stage 2 makes no call to the fine-tuning collaborator exactly when the weights path
  exists and is not an empty directory. On a non-empty weights directory the stage
  reports the weights found and leaves the disk as it is. When the weights path is
  absent or an empty directory, the finetuner is constructed from the configuration and
  the directory helper, run on the train split of Stage 1, and its model saved.
\<close>

theorem finetune_skipped_iff_weights_present:
  "(filter is_finetune_call (new_events w (snd (loading_model E config P train w))) = [] \<longleftrightarrow>
      files w (weights P) \<noteq> None \<and> files w (weights P) \<noteq> Some (Dir [])) \<and>
   (files w (weights P) = Some (Dir (n # ns)) \<longrightarrow>
      loading_model E config P train w =
        (Inr (), w\<lparr>trace := trace w @ [UI_before_finetune, UI_finetune_found (weights P)]\<rparr>)) \<and>
   (files w (weights P) = None \<or> files w (weights P) = Some (Dir []) \<longrightarrow>
      LoRAFinetune E config P (files w) = (Inr ft, fsa) \<longrightarrow>
      finetune E ft train fsa = (Inr ft', fsb) \<longrightarrow>
      save_model E ft' fsb = (Inr (), fsc) \<longrightarrow>
      loading_model E config P train w =
        (Inr (), w\<lparr>files := fsc, trace := trace w @ [UI_before_finetune,
           New_LoRAFinetune config P, UI_during_finetune, Call_finetune train, Call_save_model,
           UI_after_finetune]\<rparr>))"
proof (intro conjI impI)
  show "filter is_finetune_call (new_events w (snd (loading_model E config P train w))) = [] \<longleftrightarrow>
      files w (weights P) \<noteq> None \<and> files w (weights P) \<noteq> Some (Dir [])"
    by (rule loading_model_calls)
next
  assume "files w (weights P) = Some (Dir (n # ns))"
  then show "loading_model E config P train w =
        (Inr (), w\<lparr>trace := trace w @ [UI_before_finetune, UI_finetune_found (weights P)]\<rparr>)"
    by (rule loading_model_hit)
next
  assume "files w (weights P) = None \<or> files w (weights P) = Some (Dir [])"
    "LoRAFinetune E config P (files w) = (Inr ft, fsa)"
    "finetune E ft train fsa = (Inr ft', fsb)"
    "save_model E ft' fsb = (Inr (), fsc)"
  then show "loading_model E config P train w =
        (Inr (), w\<lparr>files := fsc, trace := trace w @ [UI_before_finetune,
           New_LoRAFinetune config P, UI_during_finetune, Call_finetune train, Call_save_model,
           UI_after_finetune]\<rparr>)"
    by (rule loading_model_miss)
qed

theorem finetune_skipped_iff_weights_present_witness:
  "files \<lparr>files = complete_files, trace = []\<rparr> (weights demo_paths) = Some (Dir [''adapter_model.bin'']) \<and>
   loading_model demo ''llama'' demo_paths [1, 2] \<lparr>files = complete_files, trace = []\<rparr> =
     (Inr (), \<lparr>files = complete_files,
        trace = [UI_before_finetune, UI_finetune_found ''exp/llama/weights'']\<rparr>) \<and>
   files dataset_only_world (weights demo_paths) = None \<and>
   LoRAFinetune demo ''llama'' demo_paths (files dataset_only_world) =
     (Inr demo_paths, files dataset_only_world) \<and>
   finetune demo demo_paths [1, 2] (files dataset_only_world) =
     (Inr demo_paths, files dataset_only_world) \<and>
   save_model demo demo_paths (files dataset_only_world) =
     (Inr (), (files dataset_only_world)(''exp/llama/weights'' \<mapsto> Dir [''adapter_model.bin''])) \<and>
   loading_model demo ''llama'' demo_paths [1, 2] dataset_only_world =
     (Inr (), \<lparr>files = (files dataset_only_world)(''exp/llama/weights'' \<mapsto> Dir [''adapter_model.bin'']),
        trace = [UI_before_finetune, New_LoRAFinetune ''llama'' demo_paths, UI_during_finetune,
          Call_finetune [1, 2], Call_save_model, UI_after_finetune]\<rparr>)"
proof -
  let ?c = "\<lparr>files = complete_files, trace = []\<rparr> :: (string, nat) world"
  let ?fs3 = "(files dataset_only_world)(''exp/llama/weights'' \<mapsto> Dir [''adapter_model.bin''])"
  have h1: "files ?c (weights demo_paths) = Some (Dir (''adapter_model.bin'' # []))"
    by (simp add: demo_defs)
  have h2: "files dataset_only_world (weights demo_paths) = None \<or>
            files dataset_only_world (weights demo_paths) = Some (Dir [])"
    by (simp add: demo_defs)
  have h3: "LoRAFinetune demo ''llama'' demo_paths (files dataset_only_world) =
     (Inr demo_paths, files dataset_only_world)" by (simp add: demo_def)
  have h4: "finetune demo demo_paths [1, 2] (files dataset_only_world) =
     (Inr demo_paths, files dataset_only_world)" by (simp add: demo_def)
  have h5: "save_model demo demo_paths (files dataset_only_world) = (Inr (), ?fs3)"
    by (simp add: demo_defs)
  note t = finetune_skipped_iff_weights_present
  from t[where w = ?c and P = demo_paths and n = "''adapter_model.bin''" and ns = "[]"
      and E = demo and config = "''llama''" and train = "[1, 2]"] h1
  have c1: "loading_model demo ''llama'' demo_paths [1, 2] ?c =
     (Inr (), ?c\<lparr>trace := trace ?c @ [UI_before_finetune, UI_finetune_found (weights demo_paths)]\<rparr>)"
    by blast
  from t[where w = dataset_only_world and P = demo_paths and E = demo and config = "''llama''"
      and train = "[1, 2]" and ft = demo_paths and fsa = "files dataset_only_world"
      and ft' = demo_paths and fsb = "files dataset_only_world" and fsc = ?fs3] h2 h3 h4 h5
  have c2: "loading_model demo ''llama'' demo_paths [1, 2] dataset_only_world =
     (Inr (), dataset_only_world\<lparr>files := ?fs3, trace := trace dataset_only_world @
        [UI_before_finetune, New_LoRAFinetune ''llama'' demo_paths, UI_during_finetune,
         Call_finetune [1, 2], Call_save_model, UI_after_finetune]\<rparr>)"
    by blast
  show ?thesis using h1 h2 h3 h4 h5 c1 c2 by (simp add: demo_defs)
qed

section \<open>The display of one example\<close>

text \<open>
  C9. After either branch of Stage 1, \<^verbatim>\<open>train[0]\<close> and \<^verbatim>\<open>test[0]\<close> are evaluated with
  no guard. Whenever the splits that were loaded or generated have an empty train or
  test split, \<^verbatim>\<open>run_one_experiment\<close> raises IndexError and makes no fine-tuning or
  inference call, whatever artifacts are on disk.
\<close>

theorem empty_split_raises_IndexError:
  assumes "DirectoryHelper E cp (Validated config) (files w) = (Inr P, fsa)"
    and "DatasetGenerator E config fsa = (Inr g, fsb)"
    and "if fsb (dataset P) = None
         then generate_and_save E g (dataset P) fsb = (Inr (train, test), fsc)
         else load_dataset_from_pickle E g (dataset P) fsb = (Inr (train, test), fsc)"
    and "train = [] \<or> test = []"
  shows "fst (run_one_experiment E config cp w) = Inl IndexError \<and>
         filter (\<lambda>ev. is_finetune_call ev \<or> is_inference_call ev)
           (new_events w (snd (run_one_experiment E config cp w))) = []"
proof -
  let ?w1 = "w\<lparr>files := fsa, trace := trace w @ [New_DirectoryHelper cp (Validated config)]\<rparr>"
  have "DatasetGenerator E config (files ?w1) = (Inr g, fsb)" using assms(2) by simp
  from loading_data_empty_split[OF this assms(3,4)] obtain evs where
    ld: "loading_data E config P ?w1 = (Inl IndexError, ?w1\<lparr>files := fsc, trace := trace ?w1 @ evs\<rparr>)"
    and evs: "list_all (\<lambda>ev. \<not> is_finetune_call ev \<and> \<not> is_inference_call ev) evs"
    by blast
  have r: "run_one_experiment E config cp w =
      (Inl IndexError, ?w1\<lparr>files := fsc, trace := trace ?w1 @ evs\<rparr>)"
    using assms(1) ld by (simp add: run_one_experiment_def bnd_def call_def)
  from evs have "filter (\<lambda>ev. is_finetune_call ev \<or> is_inference_call ev) evs = []"
    by (auto simp: list_all_iff filter_empty_conv)
  with r show ?thesis by (simp add: new_events_def)
qed

theorem empty_split_raises_IndexError_witness:
  "DirectoryHelper demo ''config.yml'' (Validated ''llama'') (files empty_train_world) =
     (Inr demo_paths, files empty_train_world) \<and>
   DatasetGenerator demo ''llama'' (files empty_train_world) = (Inr (), files empty_train_world) \<and>
   files empty_train_world (dataset demo_paths) = Some (File ''[],[3]'') \<and>
   files empty_train_world (weights demo_paths) = Some (Dir [''adapter_model.bin'']) \<and>
   files empty_train_world (results_file demo_paths) = Some (File ''csv'') \<and>
   load_dataset_from_pickle demo () (dataset demo_paths) (files empty_train_world) =
     (Inr ([], [3]), files empty_train_world) \<and>
   fst (run_one_experiment demo ''llama'' ''config.yml'' empty_train_world) = Inl IndexError \<and>
   filter (\<lambda>ev. is_finetune_call ev \<or> is_inference_call ev)
     (new_events empty_train_world
        (snd (run_one_experiment demo ''llama'' ''config.yml'' empty_train_world))) = []"
proof -
  let ?s = "files empty_train_world"
  have h1: "DirectoryHelper demo ''config.yml'' (Validated ''llama'') ?s = (Inr demo_paths, ?s)"
    by (simp add: demo_defs)
  have h2: "DatasetGenerator demo ''llama'' ?s = (Inr (), ?s)"
    by (simp add: demo_def)
  have h3: "?s (dataset demo_paths) = Some (File ''[],[3]'')"
    and h4: "?s (weights demo_paths) = Some (Dir [''adapter_model.bin''])"
    and h5: "?s (results_file demo_paths) = Some (File ''csv'')"
    by (simp_all add: demo_defs)
  have h6: "load_dataset_from_pickle demo () (dataset demo_paths) ?s = (Inr ([], [3]), ?s)"
    by (simp add: demo_defs)
  have h7: "if ?s (dataset demo_paths) = None
         then generate_and_save demo () (dataset demo_paths) ?s = (Inr ([], [3::nat]), ?s)
         else load_dataset_from_pickle demo () (dataset demo_paths) ?s = (Inr ([], [3]), ?s)"
    using h3 h6 by simp
  have h8: "([]::nat list) = [] \<or> [3::nat] = []" by simp
  from empty_split_raises_IndexError[OF h1 h2 h7 h8] h1 h2 h3 h4 h5 h6
  show ?thesis by blast
qed

section \<open>Failure of fine-tuning\<close>

text \<open>
  C7. When Stage 2 runs the fine-tuning collaborator (the weights path is absent or an
  empty directory) and the collaborator raises, in its constructor, in
  \<^verbatim>\<open>finetune\<close> or in \<^verbatim>\<open>save_model\<close>, the exception leaves
  \<^verbatim>\<open>run_one_experiment\<close>, the disk is as the collaborator left it, and the inference
  collaborator is neither constructed nor invoked.
\<close>

theorem finetune_failure_aborts_before_inference:
  assumes "DirectoryHelper E cp (Validated config) (files w) = (Inr P, fsa)"
    and "loading_data E config P
           (w\<lparr>files := fsa, trace := trace w @ [New_DirectoryHelper cp (Validated config)]\<rparr>) =
           (Inr (train, test, cols), wb)"
    and "files wb (weights P) = None \<or> files wb (weights P) = Some (Dir [])"
    and "fit_and_save E config P train (files wb) = (Inl e, fsc)"
  shows "fst (run_one_experiment E config cp w) = Inl e \<and>
         files (snd (run_one_experiment E config cp w)) = fsc \<and>
         filter is_inference_call (new_events w (snd (run_one_experiment E config cp w))) = []"
proof -
  let ?w1 = "w\<lparr>files := fsa, trace := trace w @ [New_DirectoryHelper cp (Validated config)]\<rparr>"
  obtain r wc where lm: "loading_model E config P train wb = (r, wc)" by force
  from loading_model_result[OF assms(3), of E config train] assms(4) lm
  have r: "r = Inl e" and wc: "files wc = fsc" by simp_all
  have run: "run_one_experiment E config cp w = (Inl e, wc)"
    using assms(1,2) lm r by (simp add: run_one_experiment_def bnd_def call_def)
  from only_appends_new_events[OF oa_loading_data, of ?w1 E config P] assms(2)
  have "list_all (\<lambda>ev. \<not> is_finetune_call ev \<and> \<not> is_inference_call ev) (new_events ?w1 wb)"
    by simp
  moreover from oa_loading_data[of E config P] assms(2)
  obtain evs1 where e1: "trace wb = trace ?w1 @ evs1"
    unfolding only_appends_def by (metis snd_conv)
  ultimately have ok1: "list_all (\<lambda>ev. \<not> is_inference_call ev) evs1"
    by (simp add: new_events_def list_all_iff)
  from oa_loading_model[of E config P train] lm
  obtain evs2 where e2: "trace wc = trace wb @ evs2"
    and ok2: "list_all (\<lambda>ev. \<not> is_generation_call ev \<and> \<not> is_inference_call ev) evs2"
    unfolding only_appends_def by (metis snd_conv)
  have "new_events w wc = New_DirectoryHelper cp (Validated config) # evs1 @ evs2"
    using e1 e2 by (simp add: new_events_def)
  with ok1 ok2 have "filter is_inference_call (new_events w wc) = []"
    by (auto simp: list_all_iff filter_empty_conv)
  with run wc show ?thesis by simp
qed

theorem finetune_failure_aborts_before_inference_witness:
  "DirectoryHelper demo_failing_finetune ''config.yml'' (Validated ''llama'') (files dataset_only_world) =
     (Inr demo_paths, files dataset_only_world) \<and>
   files dataset_only_world (weights demo_paths) = None \<and>
   files dataset_only_world (results_file demo_paths) = None \<and>
   fit_and_save demo_failing_finetune ''llama'' demo_paths [1, 2] (files dataset_only_world) =
     (Inl (OtherError ''CUDA out of memory''), files dataset_only_world) \<and>
   fst (run_one_experiment demo_failing_finetune ''llama'' ''config.yml'' dataset_only_world) =
     Inl (OtherError ''CUDA out of memory'') \<and>
   files (snd (run_one_experiment demo_failing_finetune ''llama'' ''config.yml'' dataset_only_world)) =
     files dataset_only_world \<and>
   filter is_inference_call (new_events dataset_only_world
     (snd (run_one_experiment demo_failing_finetune ''llama'' ''config.yml'' dataset_only_world))) = []"
proof -
  let ?E = demo_failing_finetune
  let ?s = "files dataset_only_world"
  let ?w1 = "dataset_only_world\<lparr>files := ?s,
     trace := trace dataset_only_world @ [New_DirectoryHelper ''config.yml'' (Validated ''llama'')]\<rparr>"
  let ?wb = "\<lparr>files = ?s, trace = [New_DirectoryHelper ''config.yml'' (Validated ''llama''),
     UI_before_dataset_creation, UI_during_dataset_creation, New_DatasetGenerator ''llama'',
     UI_dataset_found ''exp/llama/dataset.pkl'', Call_load_dataset_from_pickle ''exp/llama/dataset.pkl'',
     UI_dataset_display_one_example 1 3,
     UI_after_dataset_creation ''exp/llama/dataset.pkl'' [1, 2] [3]]\<rparr> :: (string, nat) world"
  have h1: "DirectoryHelper ?E ''config.yml'' (Validated ''llama'') ?s = (Inr demo_paths, ?s)"
    by (simp add: demo_defs)
  have h2: "loading_data ?E ''llama'' demo_paths ?w1 = (Inr ([1, 2], [3], [''label'']), ?wb)"
    by (simp add: demo_defs loading_data_def m_defs)
  have h3: "files ?wb (weights demo_paths) = None \<or> files ?wb (weights demo_paths) = Some (Dir [])"
    by (simp add: demo_defs)
  have h4: "fit_and_save ?E ''llama'' demo_paths [1, 2] (files ?wb) =
     (Inl (OtherError ''CUDA out of memory''), ?s)"
    by (simp add: demo_defs fit_and_save_def m_defs)
  have h5: "?s (weights demo_paths) = None" and h6: "?s (results_file demo_paths) = None"
    by (simp_all add: demo_defs)
  have h4': "fit_and_save ?E ''llama'' demo_paths [1, 2] ?s =
     (Inl (OtherError ''CUDA out of memory''), ?s)"
    using h4 by simp
  from finetune_failure_aborts_before_inference[OF h1 h2 h3 h4] h1 h5 h6 h4'
  show ?thesis by blast
qed

section \<open>Validation in the sweep\<close>

text \<open>
  C5, as the code has it. When the first validation of a sweep item raises
  ValidationError, the error is printed and not raised again, and the body of the loop
  goes on with the same item: the next call is the directory helper, on the raw mapping
  that failed validation, and the sweep continues as the rest of this item and the items
  after it decide. When the directory helper raises on that mapping, its exception is the
  result of the loop: the trace ends at that call and no later item is started.
\<close>

theorem first_validation_failure_reported_then_resolved:
  assumes "Config E config = Inl (ValidationError j)"
  shows "run_loop E cp (config # configs) w =
           bnd (resolve_reload_run E cp (RawDict config)) (\<lambda>_. run_loop E cp configs)
             (w\<lparr>trace := trace w @ [New_Config config, Print j]\<rparr>) \<and>
         (\<exists>evs. new_events w (snd (run_loop E cp (config # configs) w)) =
            New_Config config # Print j # New_DirectoryHelper cp (RawDict config) # evs) \<and>
         (DirectoryHelper E cp (RawDict config) (files w) = (Inl e, fsb) \<longrightarrow>
            run_loop E cp (config # configs) w =
              (Inl e, w\<lparr>files := fsb, trace := trace w @
                 [New_Config config, Print j, New_DirectoryHelper cp (RawDict config)]\<rparr>))"
proof -
  let ?w1 = "w\<lparr>trace := trace w @ [New_Config config, Print j]\<rparr>"
  have eq: "run_loop E cp (config # configs) w =
      bnd (resolve_reload_run E cp (RawDict config)) (\<lambda>_. run_loop E cp configs) ?w1"
    by (rule run_loop_after_caught_validation[OF assms])
  from resolve_reload_run_starts[of E cp "RawDict config" ?w1] obtain evs where
    "trace (snd (resolve_reload_run E cp (RawDict config) ?w1)) =
       trace ?w1 @ (New_DirectoryHelper cp (RawDict config) # evs)" by auto
  from bnd_trace_extends[where m = "resolve_reload_run E cp (RawDict config)" and w = ?w1
      and f = "\<lambda>_. run_loop E cp configs" and ok = "\<lambda>_. True", OF this oa_run_loop]
  obtain ys where "trace (snd (bnd (resolve_reload_run E cp (RawDict config))
      (\<lambda>_. run_loop E cp configs) ?w1)) =
      trace ?w1 @ (New_DirectoryHelper cp (RawDict config) # evs) @ ys" by blast
  with eq have starts: "new_events w (snd (run_loop E cp (config # configs) w)) =
      New_Config config # Print j # New_DirectoryHelper cp (RawDict config) # (evs @ ys)"
    by (simp add: new_events_def)
  have raises: "run_loop E cp (config # configs) w =
      (Inl e, w\<lparr>files := fsb, trace := trace w @
         [New_Config config, Print j, New_DirectoryHelper cp (RawDict config)]\<rparr>)"
    if "DirectoryHelper E cp (RawDict config) (files w) = (Inl e, fsb)"
    using that eq by (simp add: resolve_reload_run_def bnd_def call_def)
  from eq starts raises show ?thesis by blast
qed

theorem first_validation_failure_reported_then_resolved_witness:
  "Config demo (YDict [(''lr'', YInt 3)]) = Inl (ValidationError ''model: field required'') \<and>
   DirectoryHelper demo ''config.yml'' (RawDict (YDict [(''lr'', YInt 3)])) (files fresh_world) =
     (Inl AttributeError, files fresh_world) \<and>
   run_loop demo ''config.yml'' [YDict [(''lr'', YInt 3)], YDict [(''model'', YStr ''llama'')]]
       fresh_world =
     (Inl AttributeError, \<lparr>files = files fresh_world,
        trace = [New_Config (YDict [(''lr'', YInt 3)]), Print ''model: field required'',
          New_DirectoryHelper ''config.yml'' (RawDict (YDict [(''lr'', YInt 3)]))]\<rparr>)"
proof -
  have h: "Config demo (YDict [(''lr'', YInt 3)]) = Inl (ValidationError ''model: field required'')"
    by (simp add: demo_defs)
  have d: "DirectoryHelper demo ''config.yml'' (RawDict (YDict [(''lr'', YInt 3)]))
      (files fresh_world) = (Inl AttributeError, files fresh_world)"
    by (simp add: demo_defs)
  from first_validation_failure_reported_then_resolved[OF h, of "''config.yml''"
      "[YDict [(''model'', YStr ''llama'')]]" fresh_world AttributeError "files fresh_world"] d
  have "run_loop demo ''config.yml'' [YDict [(''lr'', YInt 3)], YDict [(''model'', YStr ''llama'')]]
       fresh_world =
     (Inl AttributeError, fresh_world\<lparr>files := files fresh_world, trace := trace fresh_world @
        [New_Config (YDict [(''lr'', YInt 3)]), Print ''model: field required'',
         New_DirectoryHelper ''config.yml'' (RawDict (YDict [(''lr'', YInt 3)]))]\<rparr>)"
    by blast
  then show ?thesis using h d by (simp add: fresh_world_def)
qed

text \<open>
  C5 as stated fails: on \<open>invalid_sweep_world\<close> each of the two sweep items fails its
  first validation. The first failure is printed, the directory helper raises
  AttributeError on the raw mapping, and that exception ends the command: nothing is
  written to disk, no config is reloaded or validated a second time, and the second item
  is never started.
\<close>

theorem first_validation_failure_counterexample:
  "Config demo (YDict [(''lr'', YInt 3), (''ablation'', YDict [(''use_ablate'', YBool True)])]) =
     Inl (ValidationError ''model: field required'') \<and>
   run_configs demo (YDict [(''lr'', YInt 3), (''ablation'', YDict [(''use_ablate'', YBool True)])]) =
     Inr [YDict [(''lr'', YInt 3), (''ablation'', YDict [(''use_ablate'', YBool True)])],
          YDict [(''lr'', YInt 3), (''ablation'', YDict [(''use_ablate'', YBool True)])]] \<and>
   run demo ''config.yml'' invalid_sweep_world =
     (Inl AttributeError, \<lparr>files = files invalid_sweep_world,
        trace = [Open_read ''config.yml'', Yaml_safe_load ''{lr: 3, ablation: {use_ablate: true}}'',
          New_Config (YDict [(''lr'', YInt 3), (''ablation'', YDict [(''use_ablate'', YBool True)])]),
          Print ''model: field required'',
          New_DirectoryHelper ''config.yml''
            (RawDict (YDict [(''lr'', YInt 3), (''ablation'', YDict [(''use_ablate'', YBool True)])]))]\<rparr>)"
  by (simp add: demo_defs m_defs prog_defs)

text \<open>
  C6. When path resolution succeeds and the persisted config file loads and validates,
  the orchestrator runs on the configuration read back from that file: the body of the
  loop opens \<^verbatim>\<open>config_file\<close>, loads it, validates it, and is
  \<^verbatim>\<open>run_one_experiment\<close> applied to the result, whatever object the directory
  helper was built from.
\<close>

theorem orchestrator_runs_on_reloaded_config:
  assumes "validate_first E config w = (Inr config1, wa)"
    and "DirectoryHelper E cp config1 (files wa) = (Inr dir_helper, fsb)"
    and "fsb (config_file dir_helper) = Some (File content)"
    and "yaml_safe_load E content = Inr config2"
    and "Config E config2 = Inr config3"
  shows "run_item E cp config w =
     run_one_experiment E config3 cp (wa\<lparr>files := fsb, trace := trace wa @
        [New_DirectoryHelper cp config1, Open_read (config_file dir_helper),
         Yaml_safe_load content, New_Config config2]\<rparr>)"
  using assms(1) resolve_reload_run_valid[OF assms(2-5)]
  by (simp add: run_item_def bnd_def)

theorem orchestrator_runs_on_reloaded_config_witness:
  "validate_first demo (YDict [(''model'', YStr ''llama'')]) other_persisted_world =
     (Inr (Validated ''llama''),
      other_persisted_world\<lparr>trace := [New_Config (YDict [(''model'', YStr ''llama'')])]\<rparr>) \<and>
   DirectoryHelper demo ''config.yml'' (Validated ''llama'') (files other_persisted_world) =
     (Inr demo_paths, files other_persisted_world) \<and>
   files other_persisted_world (config_file demo_paths) = Some (File ''model: mistral'') \<and>
   yaml_safe_load demo ''model: mistral'' = Inr (YDict [(''model'', YStr ''mistral'')]) \<and>
   Config demo (YDict [(''model'', YStr ''mistral'')]) = Inr ''mistral'' \<and>
   run_item demo ''config.yml'' (YDict [(''model'', YStr ''llama'')]) other_persisted_world =
     run_one_experiment demo ''mistral'' ''config.yml''
       \<lparr>files = files other_persisted_world,
        trace = [New_Config (YDict [(''model'', YStr ''llama'')]),
          New_DirectoryHelper ''config.yml'' (Validated ''llama''),
          Open_read ''exp/llama/config.yml'', Yaml_safe_load ''model: mistral'',
          New_Config (YDict [(''model'', YStr ''mistral'')])]\<rparr>"
proof -
  let ?wa = "other_persisted_world\<lparr>trace := [New_Config (YDict [(''model'', YStr ''llama'')])]\<rparr>"
  have h1: "validate_first demo (YDict [(''model'', YStr ''llama'')]) other_persisted_world =
     (Inr (Validated ''llama''), ?wa)"
    by (simp add: validate_first_def m_defs demo_defs)
  have h2: "DirectoryHelper demo ''config.yml'' (Validated ''llama'') (files ?wa) =
     (Inr demo_paths, files other_persisted_world)"
    by (simp add: demo_defs)
  have h3: "files other_persisted_world (config_file demo_paths) = Some (File ''model: mistral'')"
    by (simp add: demo_defs)
  have h4: "yaml_safe_load demo ''model: mistral'' = Inr (YDict [(''model'', YStr ''mistral'')])"
    by (simp add: demo_defs)
  have h5: "Config demo (YDict [(''model'', YStr ''mistral'')]) = Inr ''mistral''"
    by (simp add: demo_defs)
  from orchestrator_runs_on_reloaded_config[OF h1 h2 h3 h4 h5]
  have "run_item demo ''config.yml'' (YDict [(''model'', YStr ''llama'')]) other_persisted_world =
     run_one_experiment demo ''mistral'' ''config.yml''
       (?wa\<lparr>files := files other_persisted_world, trace := trace ?wa @
          [New_DirectoryHelper ''config.yml'' (Validated ''llama''),
           Open_read (config_file demo_paths), Yaml_safe_load ''model: mistral'',
           New_Config (YDict [(''model'', YStr ''mistral'')])]\<rparr>)" .
  moreover have "?wa\<lparr>files := files other_persisted_world, trace := trace ?wa @
          [New_DirectoryHelper ''config.yml'' (Validated ''llama''),
           Open_read (config_file demo_paths), Yaml_safe_load ''model: mistral'',
           New_Config (YDict [(''model'', YStr ''mistral'')])]\<rparr> =
       \<lparr>files = files other_persisted_world,
        trace = [New_Config (YDict [(''model'', YStr ''llama'')]),
          New_DirectoryHelper ''config.yml'' (Validated ''llama''),
          Open_read ''exp/llama/config.yml'', Yaml_safe_load ''model: mistral'',
          New_Config (YDict [(''model'', YStr ''mistral'')])]\<rparr>"
    by (simp add: demo_defs)
  ultimately show ?thesis using h1 h2 h3 h4 h5 by simp
qed



section \<open>Exit status\<close>




end
